theory Spec2Isabelle
  imports Main
begin

section \<open>Data model\<close>

text \<open>
  The API keeps two collections, users and orders, behind Mongoose models. A request
  passes the middleware \<open>authenticateToken\<close> (endpoints/auth.js) and then the route
  handler (endpoints/orders.js). Identifiers are the string form of an ObjectId.
\<close>

type_synonym ident = string

text \<open>Exceptions of the JavaScript runtime and of Mongoose that the code can meet.\<close>

datatype js_error = TypeError | AssertionError | CastError | ValidationError | DuplicateKeyError

text \<open>The errors \<open>jwt.verify\<close> hands to its callback.\<close>

datatype jwt_error = JsonWebTokenError | TokenExpiredError | NotBeforeError

text \<open>The decoded token payload (\<open>user\<close> in the callback of \<open>jwt.verify\<close>).\<close>

record jwt_payload =
  claim_id :: ident

text \<open>
  A user document as the middleware reads it: only \<open>role\<close> is used. \<open>None\<close> is an
  absent role; an empty string is falsy too.
\<close>

record user_doc =
  role :: "string option"

text \<open>\<open>req.user\<close> once the middleware has run: the payload with the stored role added.\<close>

record principal =
  pid :: ident
  prole :: string

text \<open>A stored order: \<open>_id\<close>, the owner reference \<open>user\<close>, and the business fields.\<close>

record order =
  oid :: ident
  user :: ident
  otype :: string
  description :: "string option"

text \<open>
  \<open>req.body\<close>: a JSON object, each field present or absent. The same object is the
  argument of \<open>new Order\<close> and the update document of \<open>findByIdAndUpdate\<close>.
\<close>

record body =
  b_id :: "string option"
  b_user :: "string option"
  b_type :: "string option"
  b_description :: "string option"

record request =
  authorization :: "string option"
  param :: string
  body :: body

record store =
  users :: "ident \<rightharpoonup> user_doc"
  orders :: "order list"

text \<open>
  What the code takes from outside the repository's sources:
  \<^item> \<open>verify\<close>: \<open>jwt.verify\<close> with the configured secret;
  \<^item> \<open>castable\<close>: Mongoose's cast of a string to an ObjectId, which throws on failure;
  \<^item> \<open>validate\<close>: the order schema's validation on \<open>save\<close> (the model file is not
    among the sources);
  \<^item> \<open>fresh_id\<close>: the ObjectId generated for a new document;
  \<^item> \<open>undefined_match\<close>: the document Mongoose resolves a filter \<open>{_id: undefined}\<close> to.
\<close>

record env =
  verify :: "string \<Rightarrow> jwt_error + jwt_payload"
  castable :: "string \<Rightarrow> bool"
  validate :: "order \<Rightarrow> bool"
  fresh_id :: "order list \<Rightarrow> ident"
  undefined_match :: "order list \<Rightarrow> order option"

text \<open>
  The trace lists, in order, every call to the token verifier and to a collection, and
  every evaluation of the access guard of a handler.
\<close>

datatype event =
    JwtVerify string
  | UserFindOne ident
  | UserExists ident
  | OrderFind ident
  | OrderFindOne "string option"
  | OrderSave
  | OrderFindByIdAndUpdate "string option"
  | OrderFindByIdAndDelete ident
  | AccessCheck

datatype json = StatusText | Message string | OrderJson order | OrdersJson "order list" | Null

text \<open>What the client sees: a response, or none because an exception escaped.\<close>

datatype outcome = Sent nat json | NoResponse js_error

text \<open>How the middleware ends: a response, \<open>next()\<close> with \<open>req.user\<close> set, or a throw.\<close>

datatype gate = Reply nat json | Next principal | Throws js_error

section \<open>The authentication middleware\<close>

text \<open>\<open>String.prototype.split(' ')\<close>: cut at every single space, keeping empty pieces.\<close>

fun split_space :: "string \<Rightarrow> string list" where
  "split_space [] = [[]]"
| "split_space (c # cs) =
     (if c = CHR '' '' then [] # split_space cs
      else (case split_space cs of [] \<Rightarrow> [[c]] | w # ws \<Rightarrow> (c # w) # ws))"

text \<open>\<open>xs[i]\<close> of JavaScript: \<open>undefined\<close> out of range.\<close>

definition element :: "'a list \<Rightarrow> nat \<Rightarrow> 'a option" where
  "element xs i = (if i < length xs then Some (xs ! i) else None)"

text \<open>
  \<open>authHeader && authHeader.split(' ')[1]\<close>. An absent header gives \<open>undefined\<close>
  (\<open>None\<close>); the empty string is falsy, so \<open>&&\<close> returns it unchanged.
\<close>

definition bearer_token :: "string option \<Rightarrow> string option" where
  "bearer_token authHeader =
     (case authHeader of
        None \<Rightarrow> None
      | Some h \<Rightarrow> if h = [] then Some [] else element (split_space h) 1)"

text \<open>\<open>User.findOne({_id: id})\<close>.\<close>

definition User_findOne :: "env \<Rightarrow> store \<Rightarrow> ident \<Rightarrow> js_error + user_doc option" where
  "User_findOne e s i = (if castable e i then Inr (users s i) else Inl CastError)"

definition unauthorized :: json where
  "unauthorized = Message ''Unauthorized access.''"

text \<open>
  \<open>authenticateToken\<close>. \<open>token == null\<close> holds for \<open>undefined\<close> only, an empty token
  goes on to \<open>jwt.verify\<close>. The lookup and the assertion run in a promise callback
  with no handler for a rejection, so a throw there leaves the request unanswered.
\<close>

definition authenticateToken :: "env \<Rightarrow> store \<Rightarrow> request \<Rightarrow> gate \<times> event list" where
  "authenticateToken e s req =
     (case bearer_token (authorization req) of
        None \<Rightarrow> (Reply 401 StatusText, [])
      | Some token \<Rightarrow>
         (case verify e token of
            Inl error \<Rightarrow> (Reply 403 unauthorized, [JwtVerify token])
          | Inr usr \<Rightarrow>
             (case User_findOne e s (claim_id usr) of
                Inl err \<Rightarrow> (Throws err, [JwtVerify token, UserFindOne (claim_id usr)])
              | Inr None \<Rightarrow>
                  (Reply 403 unauthorized, [JwtVerify token, UserFindOne (claim_id usr)])
              | Inr (Some userFound) \<Rightarrow>
                  (case role userFound of
                     None \<Rightarrow>
                       (Throws AssertionError, [JwtVerify token, UserFindOne (claim_id usr)])
                   | Some r \<Rightarrow>
                       if r = [] then
                         (Throws AssertionError, [JwtVerify token, UserFindOne (claim_id usr)])
                       else
                         (Next \<lparr>pid = claim_id usr, prole = r\<rparr>,
                          [JwtVerify token, UserFindOne (claim_id usr)])))))"

section \<open>The order collection\<close>

text \<open>
  \<open>Order.findOne({_id: q})\<close>. A string that is no ObjectId makes the query throw; an
  \<open>undefined\<close> value is resolved as the environment says.
\<close>

definition Order_findOne :: "env \<Rightarrow> store \<Rightarrow> string option \<Rightarrow> js_error + order option" where
  "Order_findOne e s q =
     (case q of
        None \<Rightarrow> Inr (undefined_match e (orders s))
      | Some i \<Rightarrow>
          if castable e i then Inr (find (\<lambda>d. oid d = i) (orders s)) else Inl CastError)"

text \<open>\<open>Order.find({user: userID})\<close>.\<close>

definition Order_find :: "env \<Rightarrow> store \<Rightarrow> ident \<Rightarrow> js_error + order list" where
  "Order_find e s userID =
     (if castable e userID then Inr (filter (\<lambda>d. user d = userID) (orders s))
      else Inl CastError)"

text \<open>\<open>User.exists({_id: id})\<close>.\<close>

definition User_exists :: "env \<Rightarrow> store \<Rightarrow> ident \<Rightarrow> js_error + bool" where
  "User_exists e s i = (if castable e i then Inr (users s i \<noteq> None) else Inl CastError)"

text \<open>
  \<open>new Order({...req.body})\<close>: the fields of the body, with the default of \<open>type\<close>
  (the tests expect \<open>Box1\<close> when the field is missing). The document is not stored yet.
\<close>

definition Order_new :: "body \<Rightarrow> body" where
  "Order_new b = b\<lparr>b_type := Some (case b_type b of None \<Rightarrow> ''Box1'' | Some t \<Rightarrow> t)\<rparr>"

text \<open>
  \<open>newOrder.save()\<close>: validates, then inserts; the returned document is the stored
  one. A stored order always carries an owner reference, and \<open>_id\<close> is unique.
\<close>

definition Order_save :: "env \<Rightarrow> store \<Rightarrow> body \<Rightarrow> js_error + order \<times> store" where
  "Order_save e s d =
     (case b_user d of
        None \<Rightarrow> Inl ValidationError
      | Some w \<Rightarrow>
          (let doc = \<lparr>oid = (case b_id d of None \<Rightarrow> fresh_id e (orders s) | Some i \<Rightarrow> i),
                      user = w,
                      otype = (case b_type d of None \<Rightarrow> ''Box1'' | Some t \<Rightarrow> t),
                      description = b_description d\<rparr>
           in if \<not> validate e doc then Inl ValidationError
              else if find (\<lambda>x. oid x = oid doc) (orders s) \<noteq> None then Inl DuplicateKeyError
              else Inr (doc, s\<lparr>orders := orders s @ [doc]\<rparr>)))"

text \<open>The update document applied to a stored order: every field present is set.\<close>

definition apply_update :: "body \<Rightarrow> order \<Rightarrow> order" where
  "apply_update upd d =
     d\<lparr>user := (case b_user upd of None \<Rightarrow> user d | Some w \<Rightarrow> w),
       otype := (case b_type upd of None \<Rightarrow> otype d | Some t \<Rightarrow> t),
       description := (case b_description upd of None \<Rightarrow> description d | Some x \<Rightarrow> Some x)\<rparr>"

fun update_first :: "('a \<Rightarrow> bool) \<Rightarrow> ('a \<Rightarrow> 'a) \<Rightarrow> 'a list \<Rightarrow> 'a list" where
  "update_first P f [] = []"
| "update_first P f (x # xs) = (if P x then f x # xs else x # update_first P f xs)"

fun delete_first :: "('a \<Rightarrow> bool) \<Rightarrow> 'a list \<Rightarrow> 'a list" where
  "delete_first P [] = []"
| "delete_first P (x # xs) = (if P x then xs else x # delete_first P xs)"

text \<open>
  \<open>Order.findByIdAndUpdate(id, req.body, {"new": true})\<close>: the handler passes the
  whole body as the update document. The result is the document after the update,
  or \<open>null\<close> when nothing matches.
\<close>

definition Order_findByIdAndUpdate ::
    "env \<Rightarrow> store \<Rightarrow> string option \<Rightarrow> body \<Rightarrow> js_error + order option \<times> store" where
  "Order_findByIdAndUpdate e s q upd =
     (case Order_findOne e s q of
        Inl err \<Rightarrow> Inl err
      | Inr None \<Rightarrow> Inr (None, s)
      | Inr (Some d) \<Rightarrow>
          (case b_user upd of
             None \<Rightarrow>
               Inr (Some (apply_update upd d),
                    s\<lparr>orders := update_first (\<lambda>x. oid x = oid d) (apply_update upd) (orders s)\<rparr>)
           | Some w \<Rightarrow>
               if castable e w then
                 Inr (Some (apply_update upd d),
                      s\<lparr>orders := update_first (\<lambda>x. oid x = oid d) (apply_update upd) (orders s)\<rparr>)
               else Inl CastError))"

text \<open>\<open>Order.findByIdAndDelete(orderID)\<close>: the removed document, or \<open>null\<close>.\<close>

definition Order_findByIdAndDelete ::
    "env \<Rightarrow> store \<Rightarrow> ident \<Rightarrow> js_error + order option \<times> store" where
  "Order_findByIdAndDelete e s i =
     (case Order_findOne e s (Some i) of
        Inl err \<Rightarrow> Inl err
      | Inr None \<Rightarrow> Inr (None, s)
      | Inr (Some d) \<Rightarrow> Inr (Some d, s\<lparr>orders := delete_first (\<lambda>x. oid x = oid d) (orders s)\<rparr>))"

section \<open>The order handlers\<close>

definition unauthorized_access :: json where
  "unauthorized_access = Message ''Unauthorized Access.''"

definition bad_request :: json where
  "bad_request = Message ''Bad Request.''"

definition no_order_found :: json where
  "no_order_found = Message ''No order found.''"

definition json_of :: "order option \<Rightarrow> json" where
  "json_of x = (case x of None \<Rightarrow> Null | Some d \<Rightarrow> OrderJson d)"

text \<open>
  The guard the three handlers of a single order share, word for word:
  \<open>req.user.role !== "Admin" && orderFound.user.toString() !== req.user.id\<close>.
  \<open>&&\<close> evaluates its right side only for a non-Admin; \<open>orderFound.user\<close> on
  \<open>null\<close> throws a TypeError.
\<close>

definition access_denied :: "principal \<Rightarrow> order option \<Rightarrow> js_error + bool" where
  "access_denied u orderFound =
     (if prole u \<noteq> ''Admin'' then
        (case orderFound of
           None \<Rightarrow> Inl TypeError
         | Some d \<Rightarrow> Inr (user d \<noteq> pid u))
      else Inr False)"

text \<open>\<open>GET /orders/user/:userID\<close>: Admin only.\<close>

definition get_orders_user :: "env \<Rightarrow> principal \<Rightarrow> request \<Rightarrow> store \<Rightarrow> outcome \<times> store \<times> event list" where
  "get_orders_user e u req s =
     (if prole u \<noteq> ''Admin'' then (Sent 403 unauthorized_access, s, [])
      else
        (case Order_find e s (param req) of
           Inl err \<Rightarrow> (Sent 400 bad_request, s, [OrderFind (param req)])
         | Inr allOrders \<Rightarrow> (Sent 200 (OrdersJson allOrders), s, [OrderFind (param req)])))"

text \<open>\<open>GET /orders/all\<close>: the orders of the caller.\<close>

definition get_orders_all :: "env \<Rightarrow> principal \<Rightarrow> request \<Rightarrow> store \<Rightarrow> outcome \<times> store \<times> event list" where
  "get_orders_all e u req s =
     (case Order_find e s (pid u) of
        Inl err \<Rightarrow> (Sent 400 bad_request, s, [OrderFind (pid u)])
      | Inr allOrders \<Rightarrow> (Sent 200 (OrdersJson allOrders), s, [OrderFind (pid u)]))"

text \<open>\<open>GET /order/:orderID\<close>: the existence test comes first, the guard inside it.\<close>

definition get_order :: "env \<Rightarrow> principal \<Rightarrow> request \<Rightarrow> store \<Rightarrow> outcome \<times> store \<times> event list" where
  "get_order e u req s =
     (let orderID = param req in
      case Order_findOne e s (Some orderID) of
        Inl err \<Rightarrow> (Sent 400 bad_request, s, [OrderFindOne (Some orderID)])
      | Inr orderFound \<Rightarrow>
          (case orderFound of
             Some d \<Rightarrow>
               (case access_denied u orderFound of
                  Inl err \<Rightarrow> (Sent 400 bad_request, s, [OrderFindOne (Some orderID), AccessCheck])
                | Inr denied \<Rightarrow>
                    if denied then
                      (Sent 403 unauthorized_access, s, [OrderFindOne (Some orderID), AccessCheck])
                    else
                      (Sent 200 (OrderJson d), s, [OrderFindOne (Some orderID), AccessCheck]))
           | None \<Rightarrow> (Sent 404 no_order_found, s, [OrderFindOne (Some orderID)])))"

text \<open>
  \<open>POST /order\<close>: the owner is overwritten with the caller after the document is
  built from the body.
\<close>

definition post_order :: "env \<Rightarrow> principal \<Rightarrow> request \<Rightarrow> store \<Rightarrow> outcome \<times> store \<times> event list" where
  "post_order e u req s =
     (let newOrder = (Order_new (body req))\<lparr>b_user := Some (pid u)\<rparr> in
      case User_exists e s (pid u) of
        Inl err \<Rightarrow> (Sent 400 bad_request, s, [UserExists (pid u)])
      | Inr userExists \<Rightarrow>
          if userExists then
            (case Order_save e s newOrder of
               Inl err \<Rightarrow> (Sent 400 bad_request, s, [UserExists (pid u), OrderSave])
             | Inr (insertedOrder, s') \<Rightarrow>
                 (Sent 201 (OrderJson insertedOrder), s', [UserExists (pid u), OrderSave]))
          else
            (Sent 400 (Message ''No user associated with order.''), s, [UserExists (pid u)]))"

text \<open>\<open>PUT /order\<close>: the guard comes first, the existence test after it.\<close>

definition put_order :: "env \<Rightarrow> principal \<Rightarrow> request \<Rightarrow> store \<Rightarrow> outcome \<times> store \<times> event list" where
  "put_order e u req s =
     (let id = b_id (body req) in
      case Order_findOne e s id of
        Inl err \<Rightarrow> (Sent 400 bad_request, s, [OrderFindOne id])
      | Inr orderFound \<Rightarrow>
          (case access_denied u orderFound of
             Inl err \<Rightarrow> (Sent 400 bad_request, s, [OrderFindOne id, AccessCheck])
           | Inr denied \<Rightarrow>
               if denied then (Sent 403 unauthorized_access, s, [OrderFindOne id, AccessCheck])
               else
                 (case orderFound of
                    Some d \<Rightarrow>
                      (case Order_findByIdAndUpdate e s id (body req) of
                         Inl err \<Rightarrow>
                           (Sent 400 bad_request, s,
                            [OrderFindOne id, AccessCheck, OrderFindByIdAndUpdate id])
                       | Inr (updatedOrder, s') \<Rightarrow>
                           (Sent 201 (json_of updatedOrder), s',
                            [OrderFindOne id, AccessCheck, OrderFindByIdAndUpdate id]))
                  | None \<Rightarrow> (Sent 404 no_order_found, s, [OrderFindOne id, AccessCheck]))))"

text \<open>\<open>DELETE /order/:orderID\<close>: the guard, then the deletion; no existence test.\<close>

definition delete_order :: "env \<Rightarrow> principal \<Rightarrow> request \<Rightarrow> store \<Rightarrow> outcome \<times> store \<times> event list" where
  "delete_order e u req s =
     (let orderID = param req in
      case Order_findOne e s (Some orderID) of
        Inl err \<Rightarrow> (Sent 400 bad_request, s, [OrderFindOne (Some orderID)])
      | Inr orderFound \<Rightarrow>
          (case access_denied u orderFound of
             Inl err \<Rightarrow> (Sent 400 bad_request, s, [OrderFindOne (Some orderID), AccessCheck])
           | Inr denied \<Rightarrow>
               if denied then
                 (Sent 403 unauthorized_access, s, [OrderFindOne (Some orderID), AccessCheck])
               else
                 (case Order_findByIdAndDelete e s orderID of
                    Inl err \<Rightarrow>
                      (Sent 400 bad_request, s,
                       [OrderFindOne (Some orderID), AccessCheck, OrderFindByIdAndDelete orderID])
                  | Inr (orderDeleted, s') \<Rightarrow>
                      (Sent 200 (json_of orderDeleted), s',
                       [OrderFindOne (Some orderID), AccessCheck,
                        OrderFindByIdAndDelete orderID]))))"

section \<open>A request through the middleware and its handler\<close>

datatype route = GetOrdersUser | GetOrdersAll | GetOrder | PostOrder | PutOrder | DeleteOrder

definition handler ::
    "env \<Rightarrow> route \<Rightarrow> principal \<Rightarrow> request \<Rightarrow> store \<Rightarrow> outcome \<times> store \<times> event list" where
  "handler e r u req s =
     (case r of
        GetOrdersUser \<Rightarrow> get_orders_user e u req s
      | GetOrdersAll \<Rightarrow> get_orders_all e u req s
      | GetOrder \<Rightarrow> get_order e u req s
      | PostOrder \<Rightarrow> post_order e u req s
      | PutOrder \<Rightarrow> put_order e u req s
      | DeleteOrder \<Rightarrow> delete_order e u req s)"

text \<open>
  \<open>app.METHOD(path, authenticateToken, handler)\<close>: the handler runs only when the
  middleware calls \<open>next()\<close>.
\<close>

definition serve :: "env \<Rightarrow> route \<Rightarrow> request \<Rightarrow> store \<Rightarrow> outcome \<times> store \<times> event list" where
  "serve e r req s =
     (case authenticateToken e s req of
        (Reply code j, tr) \<Rightarrow> (Sent code j, s, tr)
      | (Throws err, tr) \<Rightarrow> (NoResponse err, s, tr)
      | (Next u, tr) \<Rightarrow>
          (case handler e r u req s of (out, s', tr') \<Rightarrow> (out, s', tr @ tr')))"

section \<open>A concrete deployment\<close>

text \<open>
  Two users and an administrator, one order of \<open>u1\<close>. The verifier accepts three
  tokens and rejects everything else, the empty token included, as \<open>jsonwebtoken\<close>
  does (\<open>jwt must be provided\<close>).
\<close>

definition demo_verify :: "string \<Rightarrow> jwt_error + jwt_payload" where
  "demo_verify t =
     (if t = ''tok1'' then Inr \<lparr>claim_id = ''u1''\<rparr>
      else if t = ''tok2'' then Inr \<lparr>claim_id = ''u2''\<rparr>
      else if t = ''tokA'' then Inr \<lparr>claim_id = ''a1''\<rparr>
      else if t = ''tokG'' then Inr \<lparr>claim_id = ''g1''\<rparr>
      else if t = ''tokR'' then Inr \<lparr>claim_id = ''r1''\<rparr>
      else if t = ''old1'' then Inl TokenExpiredError
      else Inl JsonWebTokenError)"

definition demo_env :: env where
  "demo_env =
     \<lparr>verify = demo_verify,
      castable = (\<lambda>i. i \<noteq> [] \<and> CHR ''!'' \<notin> set i),
      validate = (\<lambda>d. otype d = ''Box1'' \<or> otype d = ''Box2''),
      fresh_id = (\<lambda>ds. CHR ''o'' # concat (map oid ds)),
      undefined_match = (\<lambda>ds. None)\<rparr>"

definition demo_users :: "ident \<rightharpoonup> user_doc" where
  "demo_users i =
     (if i = ''u1'' then Some \<lparr>role = Some ''User''\<rparr>
      else if i = ''u2'' then Some \<lparr>role = Some ''User''\<rparr>
      else if i = ''a1'' then Some \<lparr>role = Some ''Admin''\<rparr>
      else if i = ''r1'' then Some \<lparr>role = None\<rparr>
      else None)"

definition demo_order :: order where
  "demo_order = \<lparr>oid = ''o1'', user = ''u1'', otype = ''Box1'', description = None\<rparr>"

definition demo_store :: store where
  "demo_store = \<lparr>users = demo_users, orders = [demo_order]\<rparr>"

definition no_body :: body where
  "no_body = \<lparr>b_id = None, b_user = None, b_type = None, b_description = None\<rparr>"

definition bearer_only :: request where
  "bearer_only = \<lparr>authorization = Some ''Bearer'', param = ''o1'', body = no_body\<rparr>"

definition empty_header :: request where
  "empty_header = \<lparr>authorization = Some [], param = ''o1'', body = no_body\<rparr>"

definition expired_request :: request where
  "expired_request = \<lparr>authorization = Some ''Bearer old1'', param = ''o1'', body = no_body\<rparr>"

definition deleted_user_request :: request where
  "deleted_user_request = \<lparr>authorization = Some ''Bearer tokG'', param = ''o1'', body = no_body\<rparr>"

definition roleless_request :: request where
  "roleless_request = \<lparr>authorization = Some ''Bearer tokR'', param = ''o1'', body = no_body\<rparr>"

definition read_request :: request where
  "read_request = \<lparr>authorization = Some ''Bearer tok2'', param = ''o1'', body = no_body\<rparr>"

definition update_request :: request where
  "update_request =
     \<lparr>authorization = Some ''Bearer tok2'', param = [],
      body = \<lparr>b_id = Some ''o1'', b_user = None, b_type = Some ''Box2'', b_description = None\<rparr>\<rparr>"

definition missing_update_request :: request where
  "missing_update_request =
     \<lparr>authorization = Some ''Bearer tok1'', param = [],
      body = \<lparr>b_id = Some ''zz'', b_user = None, b_type = Some ''Box2'', b_description = None\<rparr>\<rparr>"

definition missing_delete_request :: request where
  "missing_delete_request = \<lparr>authorization = Some ''Bearer tok1'', param = ''zz'', body = no_body\<rparr>"

definition missing_order_request :: request where
  "missing_order_request =
     \<lparr>authorization = Some ''Bearer tok1'', param = ''zz'',
      body = \<lparr>b_id = Some ''zz'', b_user = None, b_type = Some ''Box2'', b_description = None\<rparr>\<rparr>"

definition create_request :: request where
  "create_request =
     \<lparr>authorization = Some ''Bearer tok1'', param = [],
      body = \<lparr>b_id = None, b_user = Some ''u2'', b_type = None, b_description = None\<rparr>\<rparr>"

definition transfer_request :: request where
  "transfer_request =
     \<lparr>authorization = Some ''Bearer tok1'', param = [],
      body = \<lparr>b_id = Some ''o1'', b_user = Some ''u2'', b_type = None, b_description = None\<rparr>\<rparr>"

definition user1 :: principal where
  "user1 = \<lparr>pid = ''u1'', prole = ''User''\<rparr>"

definition user2 :: principal where
  "user2 = \<lparr>pid = ''u2'', prole = ''User''\<rparr>"

definition admin1 :: principal where
  "admin1 = \<lparr>pid = ''a1'', prole = ''Admin''\<rparr>"

section \<open>The authorization rule as the specification words it\<close>

datatype decision = ALLOW | DENY

definition authorize :: "principal \<Rightarrow> ident \<Rightarrow> decision" where
  "authorize p resourceOwnerId =
     (if prole p = ''Admin'' \<or> pid p = resourceOwnerId then ALLOW else DENY)"

section \<open>Auxiliary facts\<close>

lemma split_space_length:
  "length (split_space h) = Suc (length (filter (\<lambda>c. c = CHR '' '') h))"
  by (induction h) (auto split: list.splits)

lemma bearer_token_None_iff:
  "bearer_token a = None \<longleftrightarrow> (a = None \<or> (\<exists>h. a = Some h \<and> h \<noteq> [] \<and> CHR '' '' \<notin> set h))"
proof (cases a)
  case None
  then show ?thesis by (simp add: bearer_token_def)
next
  case (Some h)
  have "length (filter (\<lambda>c. c = CHR '' '') h) = 0 \<longleftrightarrow> CHR '' '' \<notin> set h"
    by (auto simp: filter_empty_conv)
  then show ?thesis using Some
    by (auto simp: bearer_token_def element_def split_space_length)
qed

lemma serve_Reply:
  "authenticateToken e s req = (Reply code j, tr) \<Longrightarrow> serve e r req s = (Sent code j, s, tr)"
  by (simp add: serve_def)

lemma serve_Throws:
  "authenticateToken e s req = (Throws err, tr) \<Longrightarrow> serve e r req s = (NoResponse err, s, tr)"
  by (simp add: serve_def)

lemma serve_Next:
  "authenticateToken e s req = (Next u, tr) \<Longrightarrow>
   serve e r req s = (fst (handler e r u req s), fst (snd (handler e r u req s)),
                      tr @ snd (snd (handler e r u req s)))"
  by (simp add: serve_def split: prod.splits)

lemma Order_findByIdAndUpdate_found:
  "Order_findOne e s q = Inr (Some d) \<Longrightarrow>
   Order_findByIdAndUpdate e s q upd =
     (if (case b_user upd of None \<Rightarrow> True | Some w \<Rightarrow> castable e w) then
        Inr (Some (apply_update upd d),
             s\<lparr>orders := update_first (\<lambda>x. oid x = oid d) (apply_update upd) (orders s)\<rparr>)
      else Inl CastError)"
  by (simp add: Order_findByIdAndUpdate_def split: option.splits)

lemma Order_findByIdAndDelete_found:
  "Order_findOne e s (Some i) = Inr (Some d) \<Longrightarrow>
   Order_findByIdAndDelete e s i =
     Inr (Some d, s\<lparr>orders := delete_first (\<lambda>x. oid x = oid d) (orders s)\<rparr>)"
  by (simp add: Order_findByIdAndDelete_def)

lemma Order_findByIdAndDelete_missing:
  "Order_findOne e s (Some i) = Inr None \<Longrightarrow> Order_findByIdAndDelete e s i = Inr (None, s)"
  by (simp add: Order_findByIdAndDelete_def)

lemma access_denied_found:
  "access_denied u (Some d) = Inr (authorize u (user d) = DENY)"
  by (auto simp: access_denied_def authorize_def)

lemma delete_order_never_404: "fst (delete_order e u req s) \<noteq> Sent 404 j"
  by (simp add: delete_order_def Let_def split: sum.splits prod.splits)

lemma Order_save_result:
  "Order_save e s dr = Inr (d, s') \<Longrightarrow>
   b_user dr = Some (user d) \<and> orders s' = orders s @ [d] \<and> users s' = users s \<and>
   find (\<lambda>x. oid x = oid d) (orders s) = None"
  by (auto simp: Order_save_def Let_def split: option.splits if_splits)

lemma find_append_new:
  "find P xs = None \<Longrightarrow> P d \<Longrightarrow> find P (xs @ [d]) = Some d"
  by (induction xs) (auto split: if_splits)

text \<open>The concrete deployment, evaluated.\<close>

lemma demo_castable: "castable demo_env i = (i \<noteq> [] \<and> CHR ''!'' \<notin> set i)"
  by (simp add: demo_env_def)

lemma demo_find_o1: "Order_findOne demo_env demo_store (Some ''o1'') = Inr (Some demo_order)"
  by (simp add: Order_findOne_def demo_castable demo_store_def demo_order_def)

lemma demo_find_zz: "Order_findOne demo_env demo_store (Some ''zz'') = Inr None"
  by (simp add: Order_findOne_def demo_castable demo_store_def demo_order_def)

lemma demo_find_undefined: "Order_findOne demo_env demo_store None = Inr None"
  by (simp add: Order_findOne_def demo_env_def)

lemma demo_find_empty: "Order_findOne demo_env demo_store (Some []) = Inl CastError"
  by (simp add: Order_findOne_def demo_castable)

lemma demo_gate_u1:
  "authorization req = Some ''Bearer tok1'' \<Longrightarrow>
   authenticateToken demo_env demo_store req = (Next user1, [JwtVerify ''tok1'', UserFindOne ''u1''])"
  by (simp add: authenticateToken_def bearer_token_def element_def demo_env_def demo_verify_def
      User_findOne_def demo_store_def demo_users_def user1_def)

section \<open>The authentication gate\<close>

text \<open>
  Claim C2, as amended. The specification has a request whose authorization header is
  absent or empty answered with 401. The code answers 401 when the header is absent,
  or is non-empty and holds no space (so that \<open>split(' ')[1]\<close> is \<open>undefined\<close>):
  then no principal is built, and neither the token verifier nor any collection is
  consulted (the trace is empty, the store unchanged).
\<close>

theorem no_token_401:
  assumes "authorization req = None \<or>
           (authorization req = Some h \<and> h \<noteq> [] \<and> CHR '' '' \<notin> set h)"
  shows "authenticateToken e s req = (Reply 401 StatusText, []) \<and>
         serve e r req s = (Sent 401 StatusText, s, [])"
proof -
  from assms have "bearer_token (authorization req) = None"
    by (auto simp: bearer_token_None_iff)
  then have g: "authenticateToken e s req = (Reply 401 StatusText, [])"
    by (simp add: authenticateToken_def)
  from g serve_Reply [OF g] show ?thesis by simp
qed

theorem no_token_401_witness:
  "authorization bearer_only = Some ''Bearer'' \<and>
   authenticateToken demo_env demo_store bearer_only = (Reply 401 StatusText, []) \<and>
   serve demo_env GetOrder bearer_only demo_store = (Sent 401 StatusText, demo_store, [])"
  using no_token_401 [of bearer_only "''Bearer''" demo_env demo_store GetOrder]
  by (simp add: bearer_only_def)

text \<open>
  Claim C2 as the specification states it fails on an empty header: the empty string
  is not \<open>null\<close>, so it is handed to the token verifier, and the answer is the
  verifier's 403, not 401.
\<close>

theorem empty_header_reaches_verifier:
  "authorization empty_header = Some [] \<and>
   serve demo_env GetOrder empty_header demo_store =
     (Sent 403 unauthorized, demo_store, [JwtVerify []])"
  by (simp add: empty_header_def serve_def authenticateToken_def bearer_token_def demo_env_def
      demo_verify_def)

text \<open>
  Claim C3. A request whose token the verifier rejects, for whatever reason, is
  answered with 403, and the verifier is the only collaborator consulted: the identity
  lookup never runs.
\<close>

theorem rejected_token_403:
  assumes "bearer_token (authorization req) = Some t" and "verify e t = Inl err"
  shows "authenticateToken e s req = (Reply 403 unauthorized, [JwtVerify t]) \<and>
         serve e r req s = (Sent 403 unauthorized, s, [JwtVerify t]) \<and>
         (\<forall>i. UserFindOne i \<notin> set (snd (authenticateToken e s req)))"
proof -
  from assms have g: "authenticateToken e s req = (Reply 403 unauthorized, [JwtVerify t])"
    by (simp add: authenticateToken_def)
  from g serve_Reply [OF g] show ?thesis by simp
qed

theorem rejected_token_403_witness:
  "bearer_token (authorization expired_request) = Some ''old1'' \<and>
   verify demo_env ''old1'' = Inl TokenExpiredError \<and>
   serve demo_env PostOrder expired_request demo_store =
     (Sent 403 unauthorized, demo_store, [JwtVerify ''old1''])"
proof -
  have t: "bearer_token (authorization expired_request) = Some ''old1''"
    by (simp add: expired_request_def bearer_token_def element_def)
  have v: "verify demo_env ''old1'' = Inl TokenExpiredError"
    by (simp add: demo_env_def demo_verify_def)
  from rejected_token_403 [OF t v, of demo_store PostOrder] t v show ?thesis by simp
qed

text \<open>
  Claim C4. A token the verifier accepts, whose identity has no user document, is
  answered with 403 by the middleware; whatever the route, the response and the trace
  are the middleware's alone and the store is untouched, so no handler has run.
\<close>

theorem unknown_identity_403:
  assumes "bearer_token (authorization req) = Some t" and "verify e t = Inr p"
    and "User_findOne e s (claim_id p) = Inr None"
  shows "authenticateToken e s req =
           (Reply 403 unauthorized, [JwtVerify t, UserFindOne (claim_id p)]) \<and>
         serve e r req s = (Sent 403 unauthorized, s, [JwtVerify t, UserFindOne (claim_id p)])"
proof -
  from assms have g: "authenticateToken e s req =
      (Reply 403 unauthorized, [JwtVerify t, UserFindOne (claim_id p)])"
    by (simp add: authenticateToken_def)
  from g serve_Reply [OF g] show ?thesis by simp
qed

theorem unknown_identity_403_witness:
  "bearer_token (authorization deleted_user_request) = Some ''tokG'' \<and>
   verify demo_env ''tokG'' = Inr \<lparr>claim_id = ''g1''\<rparr> \<and>
   User_findOne demo_env demo_store ''g1'' = Inr None \<and>
   serve demo_env DeleteOrder deleted_user_request demo_store =
     (Sent 403 unauthorized, demo_store, [JwtVerify ''tokG'', UserFindOne ''g1''])"
proof -
  have t: "bearer_token (authorization deleted_user_request) = Some ''tokG''"
    by (simp add: deleted_user_request_def bearer_token_def element_def)
  have v: "verify demo_env ''tokG'' = Inr \<lparr>claim_id = ''g1''\<rparr>"
    by (simp add: demo_env_def demo_verify_def)
  have f: "User_findOne demo_env demo_store (claim_id \<lparr>claim_id = ''g1''\<rparr>) = Inr None"
    by (simp add: User_findOne_def demo_castable demo_store_def demo_users_def)
  from unknown_identity_403 [OF t v f, of DeleteOrder] t v f show ?thesis by simp
qed

text \<open>
  Claim C5. A valid token whose user document exists but has no role, or an empty
  one, makes the assertion fail: the middleware throws \<open>AssertionError\<close>, sets no
  \<open>req.user\<close>, does not call \<open>next()\<close>, and no handler runs.
\<close>

theorem missing_role_fault:
  assumes "bearer_token (authorization req) = Some t" and "verify e t = Inr p"
    and "User_findOne e s (claim_id p) = Inr (Some userFound)"
    and "role userFound = None \<or> role userFound = Some []"
  shows "authenticateToken e s req =
           (Throws AssertionError, [JwtVerify t, UserFindOne (claim_id p)]) \<and>
         serve e r req s =
           (NoResponse AssertionError, s, [JwtVerify t, UserFindOne (claim_id p)])"
proof -
  from assms have g: "authenticateToken e s req =
      (Throws AssertionError, [JwtVerify t, UserFindOne (claim_id p)])"
    by (auto simp: authenticateToken_def)
  from g serve_Throws [OF g] show ?thesis by simp
qed

theorem missing_role_fault_witness:
  "bearer_token (authorization roleless_request) = Some ''tokR'' \<and>
   verify demo_env ''tokR'' = Inr \<lparr>claim_id = ''r1''\<rparr> \<and>
   User_findOne demo_env demo_store ''r1'' = Inr (Some \<lparr>role = None\<rparr>) \<and>
   serve demo_env GetOrder roleless_request demo_store =
     (NoResponse AssertionError, demo_store, [JwtVerify ''tokR'', UserFindOne ''r1''])"
proof -
  have t: "bearer_token (authorization roleless_request) = Some ''tokR''"
    by (simp add: roleless_request_def bearer_token_def element_def)
  have v: "verify demo_env ''tokR'' = Inr \<lparr>claim_id = ''r1''\<rparr>"
    by (simp add: demo_env_def demo_verify_def)
  have f: "User_findOne demo_env demo_store (claim_id \<lparr>claim_id = ''r1''\<rparr>) =
      Inr (Some \<lparr>role = None\<rparr>)"
    by (simp add: User_findOne_def demo_castable demo_store_def demo_users_def)
  have n: "role \<lparr>role = None\<rparr> = None \<or> role \<lparr>role = None\<rparr> = Some []"
    by simp
  from missing_role_fault [OF t v f n, of GetOrder] t v f show ?thesis by simp
qed

section \<open>The order handlers\<close>

text \<open>
  Claim C1. When the target order is in the store, the three handlers of a single
  order decide by one rule: with an Admin role or the caller's id equal to the order's
  owner the request is allowed (the read returns the order, the update goes on to
  \<open>findByIdAndUpdate\<close>, the delete removes the order), and otherwise it is answered
  with 403 and nothing is changed. The read and the delete name the order in the URL
  parameter, the update in the \<open>_id\<close> of the body; each handler is taken with its
  own request and its own lookup, and nothing is asked of the other field.
\<close>

theorem order_access_rule:
  "(Order_findOne e s (Some (param gq)) = Inr (Some dg) \<longrightarrow>
      get_order e u gq s =
        (if authorize u (user dg) = DENY then
           (Sent 403 unauthorized_access, s, [OrderFindOne (Some (param gq)), AccessCheck])
         else
           (Sent 200 (OrderJson dg), s, [OrderFindOne (Some (param gq)), AccessCheck]))) \<and>
   (Order_findOne e s (b_id (body pq)) = Inr (Some dp) \<longrightarrow>
      put_order e u pq s =
        (if authorize u (user dp) = DENY then
           (Sent 403 unauthorized_access, s, [OrderFindOne (b_id (body pq)), AccessCheck])
         else if (case b_user (body pq) of None \<Rightarrow> True | Some w \<Rightarrow> castable e w) then
           (Sent 201 (OrderJson (apply_update (body pq) dp)),
            s\<lparr>orders :=
                update_first (\<lambda>x. oid x = oid dp) (apply_update (body pq)) (orders s)\<rparr>,
            [OrderFindOne (b_id (body pq)), AccessCheck, OrderFindByIdAndUpdate (b_id (body pq))])
         else
           (Sent 400 bad_request, s,
            [OrderFindOne (b_id (body pq)), AccessCheck,
             OrderFindByIdAndUpdate (b_id (body pq))]))) \<and>
   (Order_findOne e s (Some (param dq)) = Inr (Some dd) \<longrightarrow>
      delete_order e u dq s =
        (if authorize u (user dd) = DENY then
           (Sent 403 unauthorized_access, s, [OrderFindOne (Some (param dq)), AccessCheck])
         else
           (Sent 200 (OrderJson dd),
            s\<lparr>orders := delete_first (\<lambda>x. oid x = oid dd) (orders s)\<rparr>,
            [OrderFindOne (Some (param dq)), AccessCheck,
             OrderFindByIdAndDelete (param dq)]))) \<and>
   (authorize u w = ALLOW \<longleftrightarrow> prole u = ''Admin'' \<or> pid u = w)"
proof (intro conjI impI)
  assume "Order_findOne e s (Some (param gq)) = Inr (Some dg)"
  then show "get_order e u gq s =
      (if authorize u (user dg) = DENY then
         (Sent 403 unauthorized_access, s, [OrderFindOne (Some (param gq)), AccessCheck])
       else
         (Sent 200 (OrderJson dg), s, [OrderFindOne (Some (param gq)), AccessCheck]))"
    by (simp add: get_order_def Let_def access_denied_found)
next
  assume "Order_findOne e s (b_id (body pq)) = Inr (Some dp)"
  then show "put_order e u pq s =
      (if authorize u (user dp) = DENY then
         (Sent 403 unauthorized_access, s, [OrderFindOne (b_id (body pq)), AccessCheck])
       else if (case b_user (body pq) of None \<Rightarrow> True | Some w \<Rightarrow> castable e w) then
         (Sent 201 (OrderJson (apply_update (body pq) dp)),
          s\<lparr>orders :=
              update_first (\<lambda>x. oid x = oid dp) (apply_update (body pq)) (orders s)\<rparr>,
          [OrderFindOne (b_id (body pq)), AccessCheck, OrderFindByIdAndUpdate (b_id (body pq))])
       else
         (Sent 400 bad_request, s,
          [OrderFindOne (b_id (body pq)), AccessCheck,
           OrderFindByIdAndUpdate (b_id (body pq))]))"
    by (simp add: put_order_def Let_def access_denied_found Order_findByIdAndUpdate_found
        json_of_def)
next
  assume "Order_findOne e s (Some (param dq)) = Inr (Some dd)"
  then show "delete_order e u dq s =
      (if authorize u (user dd) = DENY then
         (Sent 403 unauthorized_access, s, [OrderFindOne (Some (param dq)), AccessCheck])
       else
         (Sent 200 (OrderJson dd),
          s\<lparr>orders := delete_first (\<lambda>x. oid x = oid dd) (orders s)\<rparr>,
          [OrderFindOne (Some (param dq)), AccessCheck, OrderFindByIdAndDelete (param dq)]))"
    by (simp add: delete_order_def Let_def access_denied_found Order_findByIdAndDelete_found
        json_of_def)
next
  show "authorize u w = ALLOW \<longleftrightarrow> prole u = ''Admin'' \<or> pid u = w"
    by (simp add: authorize_def)
qed

text \<open>
  The rule at work on a read and a delete that carry no body, and on an update that
  carries no URL parameter: \<open>u2\<close> is refused the order of \<open>u1\<close> by each handler,
  the owner reads it, and the Admin updates and deletes it.
\<close>

theorem order_access_rule_witness:
  "Order_findOne demo_env demo_store (Some (param read_request)) = Inr (Some demo_order) \<and>
   Order_findOne demo_env demo_store (b_id (body read_request)) = Inr None \<and>
   Order_findOne demo_env demo_store (b_id (body update_request)) = Inr (Some demo_order) \<and>
   Order_findOne demo_env demo_store (Some (param update_request)) = Inl CastError \<and>
   get_order demo_env user2 read_request demo_store =
     (Sent 403 unauthorized_access, demo_store, [OrderFindOne (Some ''o1''), AccessCheck]) \<and>
   put_order demo_env user2 update_request demo_store =
     (Sent 403 unauthorized_access, demo_store, [OrderFindOne (Some ''o1''), AccessCheck]) \<and>
   delete_order demo_env user2 read_request demo_store =
     (Sent 403 unauthorized_access, demo_store, [OrderFindOne (Some ''o1''), AccessCheck]) \<and>
   get_order demo_env user1 read_request demo_store =
     (Sent 200 (OrderJson demo_order), demo_store, [OrderFindOne (Some ''o1''), AccessCheck]) \<and>
   fst (put_order demo_env admin1 update_request demo_store) =
     Sent 201 (OrderJson (demo_order\<lparr>otype := ''Box2''\<rparr>)) \<and>
   delete_order demo_env admin1 read_request demo_store =
     (Sent 200 (OrderJson demo_order), demo_store\<lparr>orders := []\<rparr>,
      [OrderFindOne (Some ''o1''), AccessCheck, OrderFindByIdAndDelete ''o1''])"
proof -
  have f: "Order_findOne demo_env demo_store (Some (param read_request)) =
      Inr (Some demo_order)"
    by (simp add: read_request_def demo_find_o1)
  have f': "Order_findOne demo_env demo_store (b_id (body update_request)) =
      Inr (Some demo_order)"
    by (simp add: update_request_def demo_find_o1)
  have n: "Order_findOne demo_env demo_store (b_id (body read_request)) = Inr None"
    by (simp add: read_request_def no_body_def demo_find_undefined)
  have n': "Order_findOne demo_env demo_store (Some (param update_request)) = Inl CastError"
    by (simp add: update_request_def demo_find_empty)
  have d: "authorize user2 (user demo_order) = DENY"
    by (simp add: authorize_def user2_def demo_order_def)
  have a: "authorize user1 (user demo_order) \<noteq> DENY"
    by (simp add: authorize_def user1_def demo_order_def)
  have a': "authorize admin1 (user demo_order) \<noteq> DENY"
    by (simp add: authorize_def admin1_def)
  have b: "b_user (body update_request) = None"
    "apply_update (body update_request) demo_order = demo_order\<lparr>otype := ''Box2''\<rparr>"
    "param read_request = ''o1''" "b_id (body update_request) = Some ''o1''"
    by (simp_all add: update_request_def read_request_def apply_update_def demo_order_def)
  have o: "delete_first (\<lambda>x. oid x = oid demo_order) (orders demo_store) = []"
    by (simp add: demo_store_def)
  have r2: "get_order demo_env user2 read_request demo_store =
     (Sent 403 unauthorized_access, demo_store, [OrderFindOne (Some ''o1''), AccessCheck])"
    "put_order demo_env user2 update_request demo_store =
     (Sent 403 unauthorized_access, demo_store, [OrderFindOne (Some ''o1''), AccessCheck])"
    "delete_order demo_env user2 read_request demo_store =
     (Sent 403 unauthorized_access, demo_store, [OrderFindOne (Some ''o1''), AccessCheck])"
    using order_access_rule
      [of demo_env demo_store read_request demo_order user2 update_request demo_order
        read_request demo_order] f f' d b
    by simp_all
  have r1: "get_order demo_env user1 read_request demo_store =
     (Sent 200 (OrderJson demo_order), demo_store, [OrderFindOne (Some ''o1''), AccessCheck])"
    using order_access_rule
      [of demo_env demo_store read_request demo_order user1 update_request demo_order
        read_request demo_order] f a b
    by simp
  have ra: "fst (put_order demo_env admin1 update_request demo_store) =
     Sent 201 (OrderJson (demo_order\<lparr>otype := ''Box2''\<rparr>))"
    "delete_order demo_env admin1 read_request demo_store =
     (Sent 200 (OrderJson demo_order), demo_store\<lparr>orders := []\<rparr>,
      [OrderFindOne (Some ''o1''), AccessCheck, OrderFindByIdAndDelete ''o1''])"
    using order_access_rule
      [of demo_env demo_store read_request demo_order admin1 update_request demo_order
        read_request demo_order] f f' a' b o
    by simp_all
  show ?thesis
    apply (intro conjI)
    using f n f' n' r2 r1 ra by simp_all
qed

text \<open>
  Claim C8. A read of an order id that the lookup resolves to nothing is answered
  with 404 whoever the caller is; the trace holds the lookup alone, so the access guard
  is not evaluated.
\<close>

theorem read_missing_order_404:
  assumes "Order_findOne e s (Some (param req)) = Inr None"
  shows "get_order e u req s = (Sent 404 no_order_found, s, [OrderFindOne (Some (param req))]) \<and>
         (authenticateToken e s req = (Next u, tr) \<longrightarrow>
            serve e GetOrder req s =
              (Sent 404 no_order_found, s, tr @ [OrderFindOne (Some (param req))]))"
proof -
  have g: "get_order e u req s = (Sent 404 no_order_found, s, [OrderFindOne (Some (param req))])"
    using assms by (simp add: get_order_def Let_def)
  show ?thesis using g by (auto simp: serve_Next handler_def)
qed

theorem read_missing_order_404_witness:
  "Order_findOne demo_env demo_store (Some (param missing_order_request)) = Inr None \<and>
   authenticateToken demo_env demo_store missing_order_request =
     (Next user1, [JwtVerify ''tok1'', UserFindOne ''u1'']) \<and>
   get_order demo_env admin1 missing_order_request demo_store =
     (Sent 404 no_order_found, demo_store, [OrderFindOne (Some ''zz'')]) \<and>
   serve demo_env GetOrder missing_order_request demo_store =
     (Sent 404 no_order_found, demo_store,
      [JwtVerify ''tok1'', UserFindOne ''u1'', OrderFindOne (Some ''zz'')])"
proof -
  have f: "Order_findOne demo_env demo_store (Some (param missing_order_request)) = Inr None"
    by (simp add: missing_order_request_def demo_find_zz)
  have g: "authenticateToken demo_env demo_store missing_order_request =
     (Next user1, [JwtVerify ''tok1'', UserFindOne ''u1''])"
    by (rule demo_gate_u1) (simp add: missing_order_request_def)
  have p: "param missing_order_request = ''zz''"
    by (simp add: missing_order_request_def)
  show ?thesis
    using read_missing_order_404 [OF f, of admin1 "[JwtVerify ''tok1'', UserFindOne ''u1'']"]
      read_missing_order_404 [OF f, of user1 "[JwtVerify ''tok1'', UserFindOne ''u1'']"] f g p
    by simp
qed

text \<open>
  Claim C9. When the lookup of an update or of a delete resolves to nothing, the
  handler still evaluates the access guard next, before any test of existence. For a
  caller who is not Admin the guard reads \<open>orderFound.user\<close> on \<open>null\<close>: a
  TypeError, which the handler's \<open>catch\<close> turns into 400, so 404 is not the answer.
  The update reaches its existence test, and 404, only for an Admin, after the guard.
  Each handler is taken with its own request: the update with the \<open>_id\<close> of its
  body, the delete with its URL parameter.
\<close>

theorem mutate_missing_order_guard_first:
  "(Order_findOne e s (b_id (body pq)) = Inr None \<longrightarrow>
      take 2 (snd (snd (put_order e u pq s))) = [OrderFindOne (b_id (body pq)), AccessCheck] \<and>
      (prole u \<noteq> ''Admin'' \<longrightarrow>
         put_order e u pq s =
           (Sent 400 bad_request, s, [OrderFindOne (b_id (body pq)), AccessCheck])) \<and>
      (prole u = ''Admin'' \<longrightarrow>
         put_order e u pq s =
           (Sent 404 no_order_found, s, [OrderFindOne (b_id (body pq)), AccessCheck]))) \<and>
   (Order_findOne e s (Some (param dq)) = Inr None \<longrightarrow>
      take 2 (snd (snd (delete_order e u dq s))) =
        [OrderFindOne (Some (param dq)), AccessCheck] \<and>
      (prole u \<noteq> ''Admin'' \<longrightarrow>
         delete_order e u dq s =
           (Sent 400 bad_request, s, [OrderFindOne (Some (param dq)), AccessCheck]))) \<and>
   (prole u \<noteq> ''Admin'' \<longrightarrow> access_denied u None = Inl TypeError)"
proof -
  have a: "access_denied u None = (if prole u \<noteq> ''Admin'' then Inl TypeError else Inr False)"
    by (simp add: access_denied_def)
  have p: "put_order e u pq s =
      (if prole u \<noteq> ''Admin''
       then (Sent 400 bad_request, s, [OrderFindOne (b_id (body pq)), AccessCheck])
       else (Sent 404 no_order_found, s, [OrderFindOne (b_id (body pq)), AccessCheck]))"
    if "Order_findOne e s (b_id (body pq)) = Inr None"
    using that by (simp add: put_order_def Let_def a)
  have x: "delete_order e u dq s =
      (if prole u \<noteq> ''Admin''
       then (Sent 400 bad_request, s, [OrderFindOne (Some (param dq)), AccessCheck])
       else (Sent 200 Null, s,
             [OrderFindOne (Some (param dq)), AccessCheck, OrderFindByIdAndDelete (param dq)]))"
    if "Order_findOne e s (Some (param dq)) = Inr None"
    using that
    by (simp add: delete_order_def Let_def a Order_findByIdAndDelete_missing json_of_def)
  show ?thesis
    apply (intro conjI impI)
    using a p x by simp_all
qed

text \<open>
  An update with no URL parameter and a delete with no body, both of an id that is
  not in the store, sent by a plain user.
\<close>

theorem mutate_missing_order_guard_first_witness:
  "Order_findOne demo_env demo_store (b_id (body missing_update_request)) = Inr None \<and>
   Order_findOne demo_env demo_store (Some (param missing_update_request)) = Inl CastError \<and>
   Order_findOne demo_env demo_store (Some (param missing_delete_request)) = Inr None \<and>
   prole user1 \<noteq> ''Admin'' \<and>
   prole admin1 = ''Admin'' \<and>
   access_denied user1 None = Inl TypeError \<and>
   put_order demo_env user1 missing_update_request demo_store =
     (Sent 400 bad_request, demo_store, [OrderFindOne (Some ''zz''), AccessCheck]) \<and>
   put_order demo_env admin1 missing_update_request demo_store =
     (Sent 404 no_order_found, demo_store, [OrderFindOne (Some ''zz''), AccessCheck]) \<and>
   delete_order demo_env user1 missing_delete_request demo_store =
     (Sent 400 bad_request, demo_store, [OrderFindOne (Some ''zz''), AccessCheck])"
proof -
  have f: "Order_findOne demo_env demo_store (b_id (body missing_update_request)) = Inr None"
    by (simp add: missing_update_request_def demo_find_zz)
  have c: "Order_findOne demo_env demo_store (Some (param missing_update_request)) =
      Inl CastError"
    by (simp add: missing_update_request_def demo_find_empty)
  have f': "Order_findOne demo_env demo_store (Some (param missing_delete_request)) = Inr None"
    by (simp add: missing_delete_request_def demo_find_zz)
  have n: "prole user1 \<noteq> ''Admin''" "prole admin1 = ''Admin''"
    by (simp_all add: user1_def admin1_def)
  have p: "param missing_delete_request = ''zz''"
    "b_id (body missing_update_request) = Some ''zz''"
    by (simp_all add: missing_delete_request_def missing_update_request_def)
  have r1: "access_denied user1 None = Inl TypeError"
    "put_order demo_env user1 missing_update_request demo_store =
     (Sent 400 bad_request, demo_store, [OrderFindOne (Some ''zz''), AccessCheck])"
    "delete_order demo_env user1 missing_delete_request demo_store =
     (Sent 400 bad_request, demo_store, [OrderFindOne (Some ''zz''), AccessCheck])"
    using mutate_missing_order_guard_first
      [of demo_env demo_store missing_update_request user1 missing_delete_request] f f' n p
    by simp_all
  have ra: "put_order demo_env admin1 missing_update_request demo_store =
     (Sent 404 no_order_found, demo_store, [OrderFindOne (Some ''zz''), AccessCheck])"
    using mutate_missing_order_guard_first
      [of demo_env demo_store missing_update_request admin1 missing_delete_request] f n p
    by simp
  show ?thesis
    apply (intro conjI)
    using f c f' n r1 ra by simp_all
qed

text \<open>
  Claim C10. A delete by an Admin of an order id that the lookup resolves to nothing
  is answered with 200 and the body \<open>null\<close>, the result of \<open>findByIdAndDelete\<close>; the
  delete handler has no 404 answer at all.
\<close>

theorem admin_delete_missing_200_null:
  assumes "prole u = ''Admin''" and "Order_findOne e s (Some (param req)) = Inr None"
  shows "delete_order e u req s =
           (Sent 200 Null, s,
            [OrderFindOne (Some (param req)), AccessCheck, OrderFindByIdAndDelete (param req)]) \<and>
         (\<forall>v q t j. fst (delete_order e v q t) \<noteq> Sent 404 j)"
proof -
  from assms(1) have a: "access_denied u None = Inr False"
    by (simp add: access_denied_def)
  have "delete_order e u req s =
      (Sent 200 Null, s,
       [OrderFindOne (Some (param req)), AccessCheck, OrderFindByIdAndDelete (param req)])"
    using assms(2) a
    by (simp add: delete_order_def Let_def Order_findByIdAndDelete_missing json_of_def)
  then show ?thesis using delete_order_never_404 by blast
qed

theorem admin_delete_missing_200_null_witness:
  "prole admin1 = ''Admin'' \<and>
   Order_findOne demo_env demo_store (Some (param missing_order_request)) = Inr None \<and>
   delete_order demo_env admin1 missing_order_request demo_store =
     (Sent 200 Null, demo_store,
      [OrderFindOne (Some ''zz''), AccessCheck, OrderFindByIdAndDelete ''zz''])"
proof -
  have r: "prole admin1 = ''Admin''"
    by (simp add: admin1_def)
  have f: "Order_findOne demo_env demo_store (Some (param missing_order_request)) = Inr None"
    by (simp add: missing_order_request_def demo_find_zz)
  have p: "param missing_order_request = ''zz''"
    by (simp add: missing_order_request_def)
  show ?thesis
    using admin_delete_missing_200_null [OF r f] r f p by simp
qed

text \<open>
  Claim C7. Whenever order creation succeeds (201), the order returned and stored is
  owned by the caller, whatever \<open>user\<close> the request body carried: it is the last
  document of the collection and the one its id resolves to.
\<close>

theorem created_order_owned_by_caller:
  assumes "post_order e u req s = (Sent 201 j, s', tr)"
  shows "\<exists>d. j = OrderJson d \<and> user d = pid u \<and> orders s' = orders s @ [d] \<and>
             find (\<lambda>x. oid x = oid d) (orders s') = Some d"
proof -
  let ?new = "(Order_new (body req))\<lparr>b_user := Some (pid u)\<rparr>"
  from assms obtain d where sv: "Order_save e s ?new = Inr (d, s')" and j: "j = OrderJson d"
    by (auto simp: post_order_def Let_def split: sum.splits if_splits prod.splits)
  from Order_save_result [OF sv] have w: "user d = pid u" and o: "orders s' = orders s @ [d]"
    and f: "find (\<lambda>x. oid x = oid d) (orders s) = None"
    by simp_all
  from find_append_new [OF f, of d] o have "find (\<lambda>x. oid x = oid d) (orders s') = Some d"
    by simp
  with j w o show ?thesis by blast
qed

theorem created_order_owned_by_caller_witness:
  "b_user (body create_request) = Some ''u2'' \<and>
   post_order demo_env user1 create_request demo_store =
     (Sent 201 (OrderJson \<lparr>oid = ''oo1'', user = ''u1'', otype = ''Box1'', description = None\<rparr>),
      demo_store\<lparr>orders := [demo_order,
        \<lparr>oid = ''oo1'', user = ''u1'', otype = ''Box1'', description = None\<rparr>]\<rparr>,
      [UserExists ''u1'', OrderSave]) \<and>
   (\<exists>d. user d = pid user1 \<and>
        orders (demo_store\<lparr>orders := [demo_order,
          \<lparr>oid = ''oo1'', user = ''u1'', otype = ''Box1'', description = None\<rparr>]\<rparr>) =
        orders demo_store @ [d])"
proof -
  have b: "b_user (body create_request) = Some ''u2''"
    by (simp add: create_request_def)
  have x: "User_exists demo_env demo_store (pid user1) = Inr True"
    by (simp add: User_exists_def demo_castable user1_def demo_store_def demo_users_def)
  have sv: "Order_save demo_env demo_store ((Order_new (body create_request))\<lparr>b_user := Some (pid user1)\<rparr>) =
      Inr (\<lparr>oid = ''oo1'', user = ''u1'', otype = ''Box1'', description = None\<rparr>,
           demo_store\<lparr>orders := [demo_order,
             \<lparr>oid = ''oo1'', user = ''u1'', otype = ''Box1'', description = None\<rparr>]\<rparr>)"
    by (simp add: Order_save_def Order_new_def create_request_def user1_def Let_def demo_env_def
        demo_store_def demo_order_def)
  have p: "post_order demo_env user1 create_request demo_store =
     (Sent 201 (OrderJson \<lparr>oid = ''oo1'', user = ''u1'', otype = ''Box1'', description = None\<rparr>),
      demo_store\<lparr>orders := [demo_order,
        \<lparr>oid = ''oo1'', user = ''u1'', otype = ''Box1'', description = None\<rparr>]\<rparr>,
      [UserExists ''u1'', OrderSave])"
    unfolding post_order_def Let_def using x sv by (simp add: user1_def)
  from created_order_owned_by_caller [OF p] b p show ?thesis by auto
qed

text \<open>
  Claim C6. The specification has the owner of an order fixed at creation. The update
  handler hands the whole request body to \<open>findByIdAndUpdate\<close>, so a body that
  carries \<open>user\<close> rewrites the owner: here \<open>u1\<close> updates the own order \<open>o1\<close> with
  \<open>user = u2\<close>, the answer is 201, and the stored order belongs to \<open>u2\<close>.
\<close>

theorem put_order_transfers_ownership:
  "find (\<lambda>x. oid x = ''o1'') (orders demo_store) = Some demo_order \<and>
   user demo_order = ''u1'' \<and>
   serve demo_env PutOrder transfer_request demo_store =
     (Sent 201 (OrderJson (demo_order\<lparr>user := ''u2''\<rparr>)),
      demo_store\<lparr>orders := [demo_order\<lparr>user := ''u2''\<rparr>]\<rparr>,
      [JwtVerify ''tok1'', UserFindOne ''u1'', OrderFindOne (Some ''o1''), AccessCheck,
       OrderFindByIdAndUpdate (Some ''o1'')])"
proof -
  have g: "authenticateToken demo_env demo_store transfer_request =
     (Next user1, [JwtVerify ''tok1'', UserFindOne ''u1''])"
    by (rule demo_gate_u1) (simp add: transfer_request_def)
  have a: "access_denied user1 (Some demo_order) = Inr False"
    by (simp add: access_denied_def demo_order_def user1_def)
  have b: "body transfer_request =
      \<lparr>b_id = Some ''o1'', b_user = Some ''u2'', b_type = None, b_description = None\<rparr>"
    by (simp add: transfer_request_def)
  have u: "Order_findByIdAndUpdate demo_env demo_store (Some ''o1'') (body transfer_request) =
      Inr (Some (demo_order\<lparr>user := ''u2''\<rparr>),
           demo_store\<lparr>orders := [demo_order\<lparr>user := ''u2''\<rparr>]\<rparr>)"
    by (simp add: Order_findByIdAndUpdate_found [OF demo_find_o1] b)
       (simp add: demo_env_def demo_store_def demo_order_def apply_update_def)
  have p: "put_order demo_env user1 transfer_request demo_store =
     (Sent 201 (OrderJson (demo_order\<lparr>user := ''u2''\<rparr>)),
      demo_store\<lparr>orders := [demo_order\<lparr>user := ''u2''\<rparr>]\<rparr>,
      [OrderFindOne (Some ''o1''), AccessCheck, OrderFindByIdAndUpdate (Some ''o1'')])"
    unfolding put_order_def Let_def using u
    by (simp add: b demo_find_o1 a json_of_def)
  have o: "find (\<lambda>x. oid x = ''o1'') (orders demo_store) = Some demo_order"
    "user demo_order = ''u1''"
    by (simp_all add: demo_store_def demo_order_def)
  show ?thesis
    using o by (simp add: serve_Next [OF g] handler_def p)
qed

end
